theory Spec2Isabelle
  imports Complex_Main "HOL-Library.Word"
begin

unbundle bit_operations_syntax

section \<open>Go values used by the program\<close>

text \<open>
  A Go \<open>error\<close> value is identified by its message; a nil error is \<open>None\<close> of
  \<open>error option\<close>. A Go \<open>string\<close> is a byte sequence, here a \<open>string\<close>.
\<close>

datatype error = Error string

text \<open>
  A \<open>float64\<close> is its IEEE-754 binary64 bit pattern: bit 63 is the sign, bits 62..52
  the biased exponent, bits 51..0 the fraction.
\<close>

type_synonym float64 = "64 word"

definition signbit :: "float64 \<Rightarrow> bool" where
  "signbit f = bit f 63"

definition biased_exp :: "float64 \<Rightarrow> nat" where
  "biased_exp f = unat (drop_bit 52 f AND 0x7FF)"

definition fraction :: "float64 \<Rightarrow> nat" where
  "fraction f = unat (f AND 0xFFFFFFFFFFFFF)"

definition IsNaN :: "float64 \<Rightarrow> bool" where
  "IsNaN f = (biased_exp f = 0x7FF \<and> fraction f \<noteq> 0)"

definition IsInf :: "float64 \<Rightarrow> bool" where
  "IsInf f = (biased_exp f = 0x7FF \<and> fraction f = 0)"

definition IsFinite :: "float64 \<Rightarrow> bool" where
  "IsFinite f = (biased_exp f \<noteq> 0x7FF)"

text \<open>
  The magnitude of a finite \<open>float64\<close> is \<open>mant * 2 ^ (exp2 - 1075)\<close>: a subnormal
  (biased exponent 0) has no implicit leading bit and the exponent of the smallest normal.
\<close>

definition mant :: "float64 \<Rightarrow> nat" where
  "mant f = (if biased_exp f = 0 then fraction f else 2 ^ 52 + fraction f)"

definition exp2 :: "float64 \<Rightarrow> nat" where
  "exp2 f = (if biased_exp f = 0 then 1 else biased_exp f)"

definition magnitude :: "float64 \<Rightarrow> rat" where
  "magnitude f = of_nat (mant f * 2 ^ exp2 f) / 2 ^ 1075"

subsection \<open>The verbs of \<open>fmt.Sprintf\<close> that the program uses\<close>

text \<open>
  The decimal digit of a number below ten (every use is below ten), and the decimal
  numeral of a number.
\<close>

definition digit :: "nat \<Rightarrow> char" where
  "digit d = ''0123456789'' ! d"

fun decimal :: "nat \<Rightarrow> string" where
  "decimal n = (if n < 10 then [digit n] else decimal (n div 10) @ [digit (n mod 10)])"

declare decimal.simps [simp del]

text \<open>
  \<open>hundredths f\<close> is the magnitude of \<open>f\<close> in units of 0.01, rounded to the nearest
  integer, a tie going to the even one: Go formats the exact binary value and rounds the
  exact decimal expansion half to even.
\<close>

definition hundredths :: "float64 \<Rightarrow> nat" where
  "hundredths f =
     (let num = 100 * mant f * 2 ^ exp2 f;
          den = 2 ^ 1075;
          q = num div den;
          r = num mod den
      in if den < 2 * r \<or> (2 * r = den \<and> odd q) then q + 1 else q)"

text \<open>
  The verb \<open>%.2f\<close>: \<open>NaN\<close>, \<open>+Inf\<close> and \<open>-Inf\<close> for the values that are not
  finite; otherwise a minus sign when the sign bit is set, the integer part, a point and
  two digits.
\<close>

definition fmt_f2 :: "float64 \<Rightarrow> string" where
  "fmt_f2 f =
     (if IsNaN f then ''NaN''
      else if IsInf f then (if signbit f then ''-Inf'' else ''+Inf'')
      else (if signbit f then ''-'' else '''')
           @ decimal (hundredths f div 100) @ ''.''
           @ [digit (hundredths f div 10 mod 10), digit (hundredths f mod 10)])"

text \<open>The verb \<open>%s\<close> applied to a string is the string itself.\<close>

definition fmt_s :: "string \<Rightarrow> string" where
  "fmt_s s = s"

abbreviation LF :: string where
  "LF \<equiv> [CHR 0x0A]"

text \<open>
  A \<open>context.Context\<close> as far as the program builds one: the context of the inbound
  request, or a child with a timeout in nanoseconds.
\<close>

datatype go_context = Background | WithTimeout go_context nat

definition Second :: nat where
  "Second = 1000000000"

section \<open>Data model\<close>

record Config =
  Domain :: string
  ApiKey :: string
  FromName :: string
  FromEmail :: string

record ProductEmail =
  ProductName :: string
  Price :: float64
  Description :: string
  RecipientEmail :: string

subsection \<open>The mail provider\<close>

text \<open>
  \<open>mailgun.NewMessage(from, subject, text, to...)\<close> builds the message;
  \<open>(*MailgunImpl).Send(ctx, message)\<close> returns \<open>(mes, id, err)\<close>: the provider's
  human-readable response text, the message id, and an error or nil. The provider is
  outside the program: it is any function of the context and the message.
\<close>

record Message =
  From :: string
  Subject :: string
  Text :: string
  To :: "string list"

definition NewMessage :: "string \<Rightarrow> string \<Rightarrow> string \<Rightarrow> string list \<Rightarrow> Message" where
  "NewMessage sender subject text recipients =
     \<lparr>From = sender, Subject = subject, Text = text, To = recipients\<rparr>"

type_synonym MailgunImpl = "go_context \<Rightarrow> Message \<Rightarrow> string \<times> string \<times> error option"

text \<open>
  The calls made to the provider are an effect: \<open>Send\<close> appends the message to the
  list of messages submitted so far.
\<close>

definition Send ::
  "MailgunImpl \<Rightarrow> go_context \<Rightarrow> Message \<Rightarrow> Message list
     \<Rightarrow> (string \<times> string \<times> error option) \<times> Message list" where
  "Send m ctx message outbox = (m ctx message, outbox @ [message])"

section \<open>The email service\<close>

record EmailService =
  mg :: MailgunImpl
  config :: Config

definition NewEmailService :: "(string \<Rightarrow> string \<Rightarrow> MailgunImpl) \<Rightarrow> Config \<Rightarrow> EmailService" where
  "NewEmailService NewMailgun cfg =
     \<lparr>mg = NewMailgun (Domain cfg) (ApiKey cfg), config = cfg\<rparr>"

definition formatProductEmail :: "EmailService \<Rightarrow> ProductEmail \<Rightarrow> string" where
  "formatProductEmail s data =
     LF @ ''Product Details:'' @ LF
     @ ''---------------'' @ LF
     @ ''Name: '' @ fmt_s (ProductName data) @ LF
     @ ''Price: $'' @ fmt_f2 (Price data) @ LF
     @ ''Description: '' @ fmt_s (Description data) @ LF"

definition SendProductEmail ::
  "EmailService \<Rightarrow> go_context \<Rightarrow> ProductEmail \<Rightarrow> Message list
     \<Rightarrow> (string \<times> string \<times> error option) \<times> Message list" where
  "SendProductEmail s ctx data outbox =
     (let emailBody = formatProductEmail s data;
          sender = fmt_s (FromName (config s)) @ '' <'' @ fmt_s (FromEmail (config s))
                   @ ''@'' @ fmt_s (Domain (config s)) @ ''>'';
          message = NewMessage sender ''Product Information'' emailBody [RecipientEmail data]
      in Send (mg s) ctx message outbox)"

text \<open>
  The template as the specification words it: five lines. \<open>unlines\<close> ends each line
  of a list with a line feed.
\<close>

definition template_lines :: "ProductEmail \<Rightarrow> string list" where
  "template_lines data =
     [''Product Details:'',
      ''---------------'',
      ''Name: '' @ ProductName data,
      ''Price: $'' @ fmt_f2 (Price data),
      ''Description: '' @ Description data]"

definition unlines :: "string list \<Rightarrow> string" where
  "unlines ls = concat (map (\<lambda>l. l @ LF) ls)"

section \<open>The HTTP layer\<close>

subsection \<open>Requests, the response writer and the gin context\<close>

record Request =
  Method :: string
  URLPath :: string
  Body :: string
  ReqContext :: go_context

text \<open>\<open>gin.H\<close> is a map from field names to values; every value here is a string.\<close>

type_synonym H = "string \<rightharpoonup> string"

datatype chunk = JSONBody H | TextBody string

text \<open>
  The response writer: the header map that handlers edit, the status, whether the status
  line and headers have gone out, the headers as they went out, and the body written so
  far. Headers set after the status line has gone out do not reach the client.
\<close>

record ResponseWriter =
  header :: "string \<rightharpoonup> string"
  status :: nat
  written :: bool
  sent_header :: "string \<rightharpoonup> string"
  body :: "chunk list"

definition Header_Set :: "string \<Rightarrow> string \<Rightarrow> ResponseWriter \<Rightarrow> ResponseWriter" where
  "Header_Set k v w = w\<lparr>header := (header w)(k \<mapsto> v)\<rparr>"

definition WriteHeader :: "nat \<Rightarrow> ResponseWriter \<Rightarrow> ResponseWriter" where
  "WriteHeader code w =
     (if 0 < code \<and> status w \<noteq> code then (if written w then w else w\<lparr>status := code\<rparr>)
      else w)"

definition WriteHeaderNow :: "ResponseWriter \<Rightarrow> ResponseWriter" where
  "WriteHeaderNow w = (if written w then w else w\<lparr>written := True, sent_header := header w\<rparr>)"

definition Write :: "chunk \<Rightarrow> ResponseWriter \<Rightarrow> ResponseWriter" where
  "Write data w = (let w1 = WriteHeaderNow w in w1\<lparr>body := body w1 @ [data]\<rparr>)"

definition writeContentType :: "string \<Rightarrow> ResponseWriter \<Rightarrow> ResponseWriter" where
  "writeContentType v w =
     (case header w ''Content-Type'' of
        None \<Rightarrow> w\<lparr>header := (header w)(''Content-Type'' \<mapsto> v)\<rparr>
      | Some _ \<Rightarrow> w)"

record Context =
  Request :: Request
  Writer :: ResponseWriter
  aborted :: bool
  Errors :: "error list"

definition newContext :: "Request \<Rightarrow> Context" where
  "newContext req =
     \<lparr>Request = req,
      Writer = \<lparr>header = Map.empty, status = 200, written = False,
                sent_header = Map.empty, body = []\<rparr>,
      aborted = False, Errors = []\<rparr>"

definition Status :: "nat \<Rightarrow> Context \<Rightarrow> Context" where
  "Status code c = c\<lparr>Writer := WriteHeader code (Writer c)\<rparr>"

definition Abort :: "Context \<Rightarrow> Context" where
  "Abort c = c\<lparr>aborted := True\<rparr>"

definition AbortWithStatus :: "nat \<Rightarrow> Context \<Rightarrow> Context" where
  "AbortWithStatus code c =
     (let c1 = Status code c;
          c2 = c1\<lparr>Writer := WriteHeaderNow (Writer c1)\<rparr>
      in Abort c2)"

definition bodyAllowedForStatus :: "nat \<Rightarrow> bool" where
  "bodyAllowedForStatus code =
     (if 100 \<le> code \<and> code \<le> 199 then False
      else if code = 204 then False
      else if code = 304 then False
      else True)"

definition JSON :: "nat \<Rightarrow> H \<Rightarrow> Context \<Rightarrow> Context" where
  "JSON code obj c =
     (let c1 = Status code c;
          w2 = writeContentType ''application/json; charset=utf-8'' (Writer c1)
      in if bodyAllowedForStatus code then c1\<lparr>Writer := Write (JSONBody obj) w2\<rparr>
         else c1\<lparr>Writer := WriteHeaderNow w2\<rparr>)"

text \<open>
  \<open>c.BindJSON(&productData)\<close>: the JSON decoder is the library's, a function from the
  request body to the decoded struct or an error. On an error gin aborts the request with
  status 400 and records the error.
\<close>

type_synonym decoder = "string \<Rightarrow> error + ProductEmail"

definition BindJSON :: "decoder \<Rightarrow> Context \<Rightarrow> (error + ProductEmail) \<times> Context" where
  "BindJSON dec c =
     (case dec (Body (Request c)) of
        Inl err \<Rightarrow> (Inl err, (AbortWithStatus 400 c)\<lparr>Errors := Errors c @ [err]\<rparr>)
      | Inr v \<Rightarrow> (Inr v, c))"

subsection \<open>The handler\<close>

record Handler =
  emailService :: EmailService

definition NewHandler :: "EmailService \<Rightarrow> Handler" where
  "NewHandler es = \<lparr>emailService = es\<rparr>"

text \<open>
  A handler transforms the gin context and the list of messages submitted to the provider.
\<close>

type_synonym world = "Context \<times> Message list"

definition SendProductHandler :: "decoder \<Rightarrow> Handler \<Rightarrow> world \<Rightarrow> world" where
  "SendProductHandler dec h cw =
     (case cw of (c, outbox) \<Rightarrow>
        (case BindJSON dec c of
           (Inl err, c1) \<Rightarrow> (JSON 400 [''error'' \<mapsto> ''Invalid request body''] c1, outbox)
         | (Inr productData, c1) \<Rightarrow>
             (let ctx = WithTimeout (ReqContext (Request c1)) (Second * 10)
              in case SendProductEmail (emailService h) ctx productData outbox of
                   ((resp, id', Some err), outbox1) \<Rightarrow>
                     (JSON 500 [''error'' \<mapsto> ''Failed to send email''] c1, outbox1)
                 | ((resp, id', None), outbox1) \<Rightarrow>
                     (JSON 200 [''message'' \<mapsto> ''Email sent successfully'',
                                ''id'' \<mapsto> id',
                                ''response'' \<mapsto> resp] c1, outbox1))))"

subsection \<open>The CORS middleware and the router of \<open>main\<close>\<close>

text \<open>
  The middleware registered with \<open>r.Use\<close>; \<open>next\<close> is what \<open>c.Next()\<close> runs, the
  rest of the handler chain.
\<close>

definition corsMiddleware :: "(world \<Rightarrow> world) \<Rightarrow> world \<Rightarrow> world" where
  "corsMiddleware next cw =
     (case cw of (c, outbox) \<Rightarrow>
        (let w1 = Header_Set ''Access-Control-Allow-Origin'' ''http://localhost:5173'' (Writer c);
             w2 = Header_Set ''Access-Control-Allow-Methods'' ''POST, OPTIONS'' w1;
             w3 = Header_Set ''Access-Control-Allow-Headers'' ''Content-Type'' w2;
             w4 = Header_Set ''Access-Control-Max-Age'' ''86400'' w3;
             c1 = c\<lparr>Writer := w4\<rparr>
         in if Method (Request c1) = ''OPTIONS'' then (AbortWithStatus 204 c1, outbox)
            else next (c1, outbox)))"

text \<open>
  The router built in \<open>main\<close>, as gin's \<open>Engine.ServeHTTP\<close> runs it: the
  middleware is global, the only route is \<open>POST /send-product\<close>, so the only method
  tree is that of \<open>POST\<close>.
  \<^item> A request that matches the route runs the middleware and then the handler.
  \<^item> A \<open>POST\<close> whose path is the route plus a trailing slash is redirected to the
    route (\<open>RedirectTrailingSlash\<close> is on in \<open>gin.Default()\<close>): gin answers it before
    any handler of the chain runs, with 307, a \<open>Location\<close> header and no body.
  \<^item> Any other request runs the middleware alone and, when nothing was written, gets
    gin's default 404.

  The logging and recovery middleware of \<open>gin.Default()\<close> leave the response alone when
  no handler panics and are left out. A \<open>Request\<close> has no query string and no
  \<open>X-Forwarded-Prefix\<close> header, which would show in the \<open>Location\<close> of the redirect.
\<close>

definition serveError :: "(world \<Rightarrow> world) \<Rightarrow> nat \<Rightarrow> string \<Rightarrow> world \<Rightarrow> world" where
  "serveError chain code defaultMessage cw =
     (case cw of (c, outbox) \<Rightarrow>
        (case chain (c\<lparr>Writer := (Writer c)\<lparr>status := code\<rparr>\<rparr>, outbox) of (c1, outbox1) \<Rightarrow>
           (if written (Writer c1) then (c1, outbox1)
            else if status (Writer c1) = code then
              (c1\<lparr>Writer := Write (TextBody defaultMessage)
                               ((Writer c1)\<lparr>header := (header (Writer c1))
                                               (''Content-Type'' \<mapsto> ''text/plain'')\<rparr>)\<rparr>,
               outbox1)
            else (c1\<lparr>Writer := WriteHeaderNow (Writer c1)\<rparr>, outbox1))))"

definition redirectTrailingSlash :: "world \<Rightarrow> world" where
  "redirectTrailingSlash cw =
     (case cw of (c, outbox) \<Rightarrow>
        (let p = URLPath (Request c);
             target = (if 1 < length p \<and> last p = CHR ''/'' then butlast p else p @ ''/'');
             w1 = Header_Set ''Location'' target (Writer c);
             w2 = WriteHeader 307 w1
         in (c\<lparr>Request := (Request c)\<lparr>URLPath := target\<rparr>, Writer := WriteHeaderNow w2\<rparr>,
             outbox)))"

definition ServeHTTP :: "decoder \<Rightarrow> Handler \<Rightarrow> Request \<Rightarrow> Message list \<Rightarrow> world" where
  "ServeHTTP dec h req outbox =
     (if Method req = ''POST'' \<and> URLPath req = ''/send-product'' then
        (case corsMiddleware (SendProductHandler dec h) (newContext req, outbox) of
           (c1, outbox1) \<Rightarrow> (c1\<lparr>Writer := WriteHeaderNow (Writer c1)\<rparr>, outbox1))
      else if Method req = ''POST'' \<and> URLPath req = ''/send-product/'' then
        redirectTrailingSlash (newContext req, outbox)
      else serveError (corsMiddleware (\<lambda>cw. cw)) 404 ''404 page not found''
             (newContext req, outbox))"

text \<open>What the client receives: the status, the headers that went out, the body.\<close>

record Response =
  code :: nat
  headers :: "string \<rightharpoonup> string"
  content :: "chunk list"

definition response :: "world \<Rightarrow> Response" where
  "response cw =
     \<lparr>code = status (Writer (fst cw)),
      headers = sent_header (Writer (fst cw)),
      content = body (Writer (fst cw))\<rparr>"


section \<open>The email service: what is submitted and what comes back\<close>

lemma SendProductEmail_eq:
  "SendProductEmail s ctx data outbox =
     (mg s ctx \<lparr>From = FromName (config s) @ '' <'' @ FromEmail (config s) @ ''@''
                        @ Domain (config s) @ ''>'',
                 Subject = ''Product Information'',
                 Text = formatProductEmail s data,
                 To = [RecipientEmail data]\<rparr>,
      outbox @ [\<lparr>From = FromName (config s) @ '' <'' @ FromEmail (config s) @ ''@''
                        @ Domain (config s) @ ''>'',
                 Subject = ''Product Information'',
                 Text = formatProductEmail s data,
                 To = [RecipientEmail data]\<rparr>])"
  by (simp add: SendProductEmail_def Send_def NewMessage_def fmt_s_def Let_def)

text \<open>
  Claim C1, as the code has it. \<open>SendProductEmail\<close> returns the provider's reply to
  the one message it submits, unchanged and in the provider's order \<open>(mes, id, err)\<close>:
  the first component is the human-readable response text, the second the message id,
  the third the provider's error (or nil).
\<close>

theorem sender_returns_provider_reply:
  "fst (SendProductEmail s ctx data outbox) =
     mg s ctx \<lparr>From = FromName (config s) @ '' <'' @ FromEmail (config s) @ ''@''
                       @ Domain (config s) @ ''>'',
                Subject = ''Product Information'',
                Text = formatProductEmail s data,
                To = [RecipientEmail data]\<rparr>"
  by (simp add: SendProductEmail_eq)

text \<open>
  Claim C1 as stated puts the message id first. With a provider that reports the response
  text \<open>queued\<close> and the id \<open>msg-1\<close>, the first component of the result is the
  response text, not the id.
\<close>

theorem sender_first_component_counterexample:
  "fst (fst (SendProductEmail
       \<lparr>mg = (\<lambda>ctx m. (''queued'', ''msg-1'', None)),
        config = \<lparr>Domain = ''acme.com'', ApiKey = ''key'', FromName = ''Acme'',
                  FromEmail = ''sales''\<rparr>\<rparr>
       Background
       \<lparr>ProductName = ''Widget'', Price = 0x4023FAE147AE147B, Description = ''A widget'',
        RecipientEmail = ''a@b.com''\<rparr> [])) = ''queued'' \<and>
   fst (fst (SendProductEmail
       \<lparr>mg = (\<lambda>ctx m. (''queued'', ''msg-1'', None)),
        config = \<lparr>Domain = ''acme.com'', ApiKey = ''key'', FromName = ''Acme'',
                  FromEmail = ''sales''\<rparr>\<rparr>
       Background
       \<lparr>ProductName = ''Widget'', Price = 0x4023FAE147AE147B, Description = ''A widget'',
        RecipientEmail = ''a@b.com''\<rparr> [])) \<noteq> ''msg-1''"
  by (simp add: SendProductEmail_eq)

text \<open>
  Claim C8. For every configuration the sender address of the submitted message is
  the sender name, a space, and the sender's mailbox, an at sign and the domain
  between angle brackets.
\<close>

theorem sender_address:
  "From (last (snd (SendProductEmail s ctx data outbox))) =
     FromName (config s) @ '' <'' @ FromEmail (config s) @ ''@'' @ Domain (config s) @ ''>''"
  by (simp add: SendProductEmail_eq)

lemma sender_address_acme:
  "From (last (snd (SendProductEmail
       \<lparr>mg = m, config = \<lparr>Domain = ''acme.com'', ApiKey = k, FromName = ''Acme'',
                  FromEmail = ''sales''\<rparr>\<rparr> ctx data outbox))) = ''Acme <sales@acme.com>''"
  by (simp add: SendProductEmail_eq)

section \<open>The handler\<close>

lemma JSON_fresh:
  "\<not> written (Writer c) \<Longrightarrow> bodyAllowedForStatus n \<Longrightarrow> 0 < n \<Longrightarrow>
     status (Writer (JSON n obj c)) = n \<and>
     body (Writer (JSON n obj c)) = body (Writer c) @ [JSONBody obj] \<and>
     written (Writer (JSON n obj c))"
  by (simp add: JSON_def Status_def WriteHeader_def writeContentType_def Write_def
      WriteHeaderNow_def Let_def split: option.splits)

lemma JSON_after_abort:
  "\<not> written (Writer c) \<Longrightarrow> bodyAllowedForStatus n \<Longrightarrow> 0 < n \<Longrightarrow>
     status (Writer (JSON n obj ((AbortWithStatus n c)\<lparr>Errors := es\<rparr>))) = n \<and>
     body (Writer (JSON n obj ((AbortWithStatus n c)\<lparr>Errors := es\<rparr>))) =
       body (Writer c) @ [JSONBody obj]"
  by (simp add: JSON_def Status_def WriteHeader_def writeContentType_def Write_def
      WriteHeaderNow_def AbortWithStatus_def Abort_def Let_def split: option.splits)

lemma BindJSON_Inr:
  "dec (Body (Request c)) = Inr data \<Longrightarrow> BindJSON dec c = (Inr data, c)"
  by (simp add: BindJSON_def)

lemma BindJSON_Inl:
  "dec (Body (Request c)) = Inl err \<Longrightarrow>
     BindJSON dec c = (Inl err, (AbortWithStatus 400 c)\<lparr>Errors := Errors c @ [err]\<rparr>)"
  by (simp add: BindJSON_def)



text \<open>
  Claim C3. When the request body does not decode, the handler, started on a response
  that nothing has been written to, responds 400 with exactly the JSON object
  \<open>{"error": "Invalid request body"}\<close>, and no message is submitted to the provider.
\<close>

theorem handler_bad_body:
  assumes "dec (Body (Request c)) = Inl err"
    and "\<not> written (Writer c)" and "body (Writer c) = []"
  shows "code (response (SendProductHandler dec h (c, outbox))) = 400 \<and>
         content (response (SendProductHandler dec h (c, outbox))) =
           [JSONBody [''error'' \<mapsto> ''Invalid request body'']] \<and>
         snd (SendProductHandler dec h (c, outbox)) = outbox"
proof -
  have "SendProductHandler dec h (c, outbox) =
      (JSON 400 [''error'' \<mapsto> ''Invalid request body'']
         ((AbortWithStatus 400 c)\<lparr>Errors := Errors c @ [err]\<rparr>), outbox)"
    by (simp add: SendProductHandler_def BindJSON_Inl [of dec c err, OF assms(1)])
  moreover have "bodyAllowedForStatus 400" by (simp add: bodyAllowedForStatus_def)
  ultimately show ?thesis
    using JSON_after_abort [OF assms(2), of 400] assms(3) by (simp add: response_def)
qed

theorem handler_bad_body_witness:
  \<open>let dec = (\<lambda>b. Inl (Error ''unexpected end of JSON input''));
       h = \<lparr>emailService =
              \<lparr>mg = (\<lambda>ctx m. (''queued'', ''msg-1'', None)),
               config = \<lparr>Domain = ''acme.com'', ApiKey = ''key'', FromName = ''Acme'',
                         FromEmail = ''sales''\<rparr>\<rparr>\<rparr>;
       c = newContext \<lparr>Method = ''POST'', URLPath = ''/send-product'',
                        Body = ''{"product_name":'', ReqContext = Background\<rparr>
   in dec (Body (Request c)) = Inl (Error ''unexpected end of JSON input'') \<and>
      \<not> written (Writer c) \<and> body (Writer c) = [] \<and>
      code (response (SendProductHandler dec h (c, []))) = 400 \<and>
      content (response (SendProductHandler dec h (c, []))) =
        [JSONBody [''error'' \<mapsto> ''Invalid request body'']] \<and>
      snd (SendProductHandler dec h (c, [])) = []\<close>
proof -
  let ?dec = "\<lambda>b::string. (Inl (Error ''unexpected end of JSON input'') :: error + ProductEmail)"
  let ?h = "\<lparr>emailService =
              \<lparr>mg = (\<lambda>ctx m. (''queued'', ''msg-1'', None)),
               config = \<lparr>Domain = ''acme.com'', ApiKey = ''key'', FromName = ''Acme'',
                         FromEmail = ''sales''\<rparr>\<rparr>\<rparr>"
  let ?c = \<open>newContext \<lparr>Method = ''POST'', URLPath = ''/send-product'',
                        Body = ''{"product_name":'', ReqContext = Background\<rparr>\<close>
  have 1: "?dec (Body (Request ?c)) = Inl (Error ''unexpected end of JSON input'')"
    by simp
  have 2: "\<not> written (Writer ?c)" and 3: "body (Writer ?c) = []"
    by (simp_all add: newContext_def)
  from handler_bad_body [of ?dec ?c "Error ''unexpected end of JSON input''" ?h "[]",
      OF 1 2 3] 1 2 3
  show ?thesis unfolding Let_def by blast
qed

text \<open>
  Claim C4. When the body decodes and the email service returns an error, the handler,
  started on a response that nothing has been written to, responds 500 with exactly the
  JSON object \<open>{"error": "Failed to send email"}\<close>. The context it leaves is
  \<open>JSON 500 {"error": "Failed to send email"}\<close> applied to the context it received:
  the same for every error and every response text or id that came with it.
\<close>

theorem handler_send_failure:
  assumes "dec (Body (Request c)) = Inr data"
    and "fst (SendProductEmail (emailService h)
                (WithTimeout (ReqContext (Request c)) (Second * 10)) data outbox)
         = (resp, id', Some err)"
    and "\<not> written (Writer c)" and "body (Writer c) = []"
  shows "fst (SendProductHandler dec h (c, outbox)) =
           JSON 500 [''error'' \<mapsto> ''Failed to send email''] c \<and>
         code (response (SendProductHandler dec h (c, outbox))) = 500 \<and>
         content (response (SendProductHandler dec h (c, outbox))) =
           [JSONBody [''error'' \<mapsto> ''Failed to send email'']]"
proof -
  obtain r ob where r: "SendProductEmail (emailService h)
      (WithTimeout (ReqContext (Request c)) (Second * 10)) data outbox = (r, ob)"
    by (cases "SendProductEmail (emailService h)
      (WithTimeout (ReqContext (Request c)) (Second * 10)) data outbox")
  with assms(2) have r': "r = (resp, id', Some err)" by simp
  have "SendProductHandler dec h (c, outbox) =
      (JSON 500 [''error'' \<mapsto> ''Failed to send email''] c, ob)"
    by (simp add: SendProductHandler_def BindJSON_Inr [of dec c data, OF assms(1)] r r')
  moreover have "bodyAllowedForStatus 500" by (simp add: bodyAllowedForStatus_def)
  ultimately show ?thesis
    using JSON_fresh [OF assms(3), of 500] assms(4) by (simp add: response_def)
qed

theorem handler_send_failure_witness:
  \<open>let data = \<lparr>ProductName = ''Widget'', Price = 0x4023FAE147AE147B,
               Description = ''A widget'', RecipientEmail = ''a@b.com''\<rparr>;
       dec = (\<lambda>b. Inr data);
       h = \<lparr>emailService =
              \<lparr>mg = (\<lambda>ctx m. ([], [], Some (Error ''401 Forbidden: bad api key''))),
               config = \<lparr>Domain = ''acme.com'', ApiKey = ''key'', FromName = ''Acme'',
                         FromEmail = ''sales''\<rparr>\<rparr>\<rparr>;
       c = newContext \<lparr>Method = ''POST'', URLPath = ''/send-product'', Body = ''{}'',
                        ReqContext = Background\<rparr>
   in dec (Body (Request c)) = Inr data \<and>
      fst (SendProductEmail (emailService h)
             (WithTimeout (ReqContext (Request c)) (Second * 10)) data [])
        = ([], [], Some (Error ''401 Forbidden: bad api key'')) \<and>
      \<not> written (Writer c) \<and> body (Writer c) = [] \<and>
      code (response (SendProductHandler dec h (c, []))) = 500 \<and>
      content (response (SendProductHandler dec h (c, []))) =
        [JSONBody [''error'' \<mapsto> ''Failed to send email'']]\<close>
proof -
  let ?data = "\<lparr>ProductName = ''Widget'', Price = 0x4023FAE147AE147B,
               Description = ''A widget'', RecipientEmail = ''a@b.com''\<rparr>"
  let ?dec = "\<lambda>b::string. (Inr ?data :: error + ProductEmail)"
  let ?h = "\<lparr>emailService =
              \<lparr>mg = (\<lambda>ctx m. ([], [], Some (Error ''401 Forbidden: bad api key''))),
               config = \<lparr>Domain = ''acme.com'', ApiKey = ''key'', FromName = ''Acme'',
                         FromEmail = ''sales''\<rparr>\<rparr>\<rparr>"
  let ?c = "newContext \<lparr>Method = ''POST'', URLPath = ''/send-product'', Body = ''{}'',
                        ReqContext = Background\<rparr>"
  have 1: "?dec (Body (Request ?c)) = Inr ?data"
    by simp
  have 2: "fst (SendProductEmail (emailService ?h)
             (WithTimeout (ReqContext (Request ?c)) (Second * 10)) ?data [])
        = ([], [], Some (Error ''401 Forbidden: bad api key''))"
    by (simp add: SendProductEmail_eq)
  have 3: "\<not> written (Writer ?c)" and 4: "body (Writer ?c) = []"
    by (simp_all add: newContext_def)
  from handler_send_failure [of ?dec ?c ?data ?h "[]" "[]" "[]"
      "Error ''401 Forbidden: bad api key''", OF 1 2 3 4] 1 2 3 4
  show ?thesis unfolding Let_def by blast
qed


section \<open>The router and the CORS middleware\<close>










text \<open>
  Claim C9. A request whose method is \<open>OPTIONS\<close> and that reaches the router, on any
  path, is answered 204 with
  an empty body and the four CORS headers; no message is submitted to the provider; and
  the middleware gives the same result whatever the rest of the handler chain is, so the
  chain is not run.
\<close>

theorem options_preflight:
  assumes "Method req = ''OPTIONS''"
  shows "response (ServeHTTP dec h req outbox) =
           \<lparr>code = 204,
            headers = [''Access-Control-Allow-Origin'' \<mapsto> ''http://localhost:5173'',
                       ''Access-Control-Allow-Methods'' \<mapsto> ''POST, OPTIONS'',
                       ''Access-Control-Allow-Headers'' \<mapsto> ''Content-Type'',
                       ''Access-Control-Max-Age'' \<mapsto> ''86400''],
            content = []\<rparr> \<and>
         snd (ServeHTTP dec h req outbox) = outbox \<and>
         corsMiddleware next (newContext req, outbox) =
           corsMiddleware next' (newContext req, outbox)"
  using assms
  by (simp add: ServeHTTP_def serveError_def corsMiddleware_def Let_def newContext_def
        Header_Set_def AbortWithStatus_def Abort_def Status_def WriteHeader_def
        WriteHeaderNow_def Write_def response_def)

theorem options_preflight_witness:
  "Method \<lparr>Method = ''OPTIONS'', URLPath = ''/anything'', Body = [],
           ReqContext = Background\<rparr> = ''OPTIONS'' \<and>
   response (ServeHTTP (\<lambda>b. Inl (Error ''unexpected end of JSON input''))
       \<lparr>emailService =
              \<lparr>mg = (\<lambda>ctx m. (''queued'', ''msg-1'', None)),
               config = \<lparr>Domain = ''acme.com'', ApiKey = ''key'', FromName = ''Acme'',
                         FromEmail = ''sales''\<rparr>\<rparr>\<rparr>
       \<lparr>Method = ''OPTIONS'', URLPath = ''/anything'', Body = [],
         ReqContext = Background\<rparr> []) =
     \<lparr>code = 204,
      headers = [''Access-Control-Allow-Origin'' \<mapsto> ''http://localhost:5173'',
                 ''Access-Control-Allow-Methods'' \<mapsto> ''POST, OPTIONS'',
                 ''Access-Control-Allow-Headers'' \<mapsto> ''Content-Type'',
                 ''Access-Control-Max-Age'' \<mapsto> ''86400''],
      content = []\<rparr> \<and>
   snd (ServeHTTP (\<lambda>b. Inl (Error ''unexpected end of JSON input''))
       \<lparr>emailService =
              \<lparr>mg = (\<lambda>ctx m. (''queued'', ''msg-1'', None)),
               config = \<lparr>Domain = ''acme.com'', ApiKey = ''key'', FromName = ''Acme'',
                         FromEmail = ''sales''\<rparr>\<rparr>\<rparr>
       \<lparr>Method = ''OPTIONS'', URLPath = ''/anything'', Body = [],
         ReqContext = Background\<rparr> []) = []"
proof -
  let ?req = "\<lparr>Method = ''OPTIONS'', URLPath = ''/anything'', Body = [],
           ReqContext = Background\<rparr>"
  have m: "Method ?req = ''OPTIONS''" by simp
  from options_preflight [OF m] m show ?thesis by blast
qed


section \<open>The email body\<close>

subsection \<open>Rounding to hundredths\<close>

lemma round_half_even_bound:
  fixes num den :: nat
  assumes "0 < den"
  shows "\<bar>(of_nat (let q = num div den; r = num mod den
                  in if den < 2 * r \<or> (2 * r = den \<and> odd q) then q + 1 else q) :: rat) / 100
          - of_nat num / (100 * of_nat den)\<bar> \<le> 1 / 200"
proof -
  define q where "q = num div den"
  define r where "r = num mod den"
  define q' where "q' = (if den < 2 * r \<or> (2 * r = den \<and> odd q) then q + 1 else q)"
  define P where "P = int q * int den"
  have num: "int num = P + int r"
    unfolding P_def q_def r_def
    by (metis div_mult_mod_eq of_nat_add of_nat_mult)
  have r: "int r < int den"
    using assms by (simp add: r_def)
  have q'P: "int q' * int den = (if den < 2 * r \<or> (2 * r = den \<and> odd q) then P + int den else P)"
    by (simp add: q'_def P_def algebra_simps)
  have key: "\<bar>2 * (int q' * int den) - 2 * int num\<bar> \<le> int den"
    unfolding q'P num using r by (auto split: if_splits)
  have d: "(0::rat) < of_nat den" using assms by simp
  have "(of_nat q' :: rat) / 100 - of_nat num / (100 * of_nat den)
      = of_int (2 * (int q' * int den) - 2 * int num) / (200 * of_nat den)"
    using d by (simp add: field_simps)
  then have "\<bar>(of_nat q' :: rat) / 100 - of_nat num / (100 * of_nat den)\<bar>
      = of_int \<bar>2 * (int q' * int den) - 2 * int num\<bar> / (200 * of_nat den)"
    using d by (simp only: abs_divide of_int_abs)
  also have "\<dots> \<le> of_int (int den) / (200 * of_nat den)"
  proof (rule divide_right_mono)
    show "(of_int \<bar>2 * (int q' * int den) - 2 * int num\<bar> :: rat) \<le> of_int (int den)"
      using key by (simp only: of_int_le_iff)
    show "(0::rat) \<le> 200 * of_nat den" by simp
  qed
  also have "\<dots> = 1 / 200" using d by simp
  finally show ?thesis
    by (simp only: q'_def q_def r_def Let_def)
qed

text \<open>When the value is exactly half way, the rounded number is even.\<close>

lemma round_half_even_tie:
  fixes num den :: nat
  assumes "0 < den"
    and "\<bar>(of_nat (let q = num div den; r = num mod den
                  in if den < 2 * r \<or> (2 * r = den \<and> odd q) then q + 1 else q) :: rat) / 100
          - of_nat num / (100 * of_nat den)\<bar> = 1 / 200"
  shows "even (let q = num div den; r = num mod den
                  in if den < 2 * r \<or> (2 * r = den \<and> odd q) then q + 1 else q)"
proof -
  define q where "q = num div den"
  define r where "r = num mod den"
  define q' where "q' = (if den < 2 * r \<or> (2 * r = den \<and> odd q) then q + 1 else q)"
  define P where "P = int q * int den"
  have num: "int num = P + int r"
    unfolding P_def q_def r_def
    by (metis div_mult_mod_eq of_nat_add of_nat_mult)
  have r: "int r < int den"
    using assms(1) by (simp add: r_def)
  have q'P: "int q' * int den = (if den < 2 * r \<or> (2 * r = den \<and> odd q) then P + int den else P)"
    by (simp add: q'_def P_def algebra_simps)
  have d: "(0::rat) < of_nat den" using assms(1) by simp
  have "(of_nat q' :: rat) / 100 - of_nat num / (100 * of_nat den)
      = of_int (2 * (int q' * int den) - 2 * int num) / (200 * of_nat den)"
    using d by (simp add: field_simps)
  then have "\<bar>(of_nat q' :: rat) / 100 - of_nat num / (100 * of_nat den)\<bar>
      = of_int \<bar>2 * (int q' * int den) - 2 * int num\<bar> / (200 * of_nat den)"
    using d by (simp only: abs_divide of_int_abs)
  moreover have "\<bar>(of_nat q' :: rat) / 100 - of_nat num / (100 * of_nat den)\<bar> = 1 / 200"
    using assms(2) by (simp only: q'_def q_def r_def Let_def)
  ultimately have "(of_int \<bar>2 * (int q' * int den) - 2 * int num\<bar> :: rat) / (200 * of_nat den)
      = 1 / 200" by simp
  then have "(of_int \<bar>2 * (int q' * int den) - 2 * int num\<bar> :: rat) = of_int (int den)"
    using d by (simp add: field_simps)
  then have tie: "\<bar>2 * (int q' * int den) - 2 * int num\<bar> = int den"
    by (simp only: of_int_eq_iff)
  have "even q'"
  proof (cases "den < 2 * r \<or> (2 * r = den \<and> odd q)")
    case True
    with tie q'P num r have "2 * int r = int den" by (simp split: if_splits)
    then have "2 * r = den" by linarith
    with True have "odd q" by auto
    with True show ?thesis by (simp add: q'_def)
  next
    case False
    with tie q'P num have "2 * int r = int den" by (simp split: if_splits)
    then have "2 * r = den" by linarith
    with False have "even q" by auto
    with False show ?thesis by (simp add: q'_def)
  qed
  then show ?thesis
    by (simp only: q'_def q_def r_def Let_def)
qed


lemma hundredths_bound:
  "\<bar>of_nat (hundredths f) / 100 - magnitude f\<bar> \<le> 1 / 200"
proof -
  define den :: nat where "den = 2 ^ 1075"
  define num :: nat where "num = 100 * mant f * 2 ^ exp2 f"
  have dpos: "0 < den"
    unfolding den_def by (rule zero_less_power) (rule zero_less_numeral)
  have h: "hundredths f = (let q = num div den; r = num mod den
                  in if den < 2 * r \<or> (2 * r = den \<and> odd q) then q + 1 else q)"
    by (simp only: hundredths_def num_def den_def Let_def)
  have "(of_nat den :: rat) = 2 ^ 1075"
    unfolding den_def by (simp only: of_nat_power of_nat_numeral)
  then have "magnitude f = of_nat (mant f * 2 ^ exp2 f) / of_nat den"
    by (simp only: magnitude_def)
  also have "\<dots> = of_nat num / (100 * of_nat den)"
    unfolding num_def by simp
  finally have m: "magnitude f = of_nat num / (100 * of_nat den)" .
  show ?thesis
    unfolding h m by (rule round_half_even_bound [OF dpos])
qed

lemma hundredths_tie:
  assumes "\<bar>of_nat (hundredths f) / 100 - magnitude f\<bar> = 1 / 200"
  shows "even (hundredths f)"
proof -
  define den :: nat where "den = 2 ^ 1075"
  define num :: nat where "num = 100 * mant f * 2 ^ exp2 f"
  have dpos: "0 < den"
    unfolding den_def by (rule zero_less_power) (rule zero_less_numeral)
  have h: "hundredths f = (let q = num div den; r = num mod den
                  in if den < 2 * r \<or> (2 * r = den \<and> odd q) then q + 1 else q)"
    by (simp only: hundredths_def num_def den_def Let_def)
  have "(of_nat den :: rat) = 2 ^ 1075"
    unfolding den_def by (simp only: of_nat_power of_nat_numeral)
  then have "magnitude f = of_nat (mant f * 2 ^ exp2 f) / of_nat den"
    by (simp only: magnitude_def)
  also have "\<dots> = of_nat num / (100 * of_nat den)"
    unfolding num_def by simp
  finally have m: "magnitude f = of_nat num / (100 * of_nat den)" .
  from assms show ?thesis
    unfolding h m by (rule round_half_even_tie [OF dpos])
qed

text \<open>
  For a value below \<open>2 ^ 53\<close> the quotient can be taken after cancelling the power of
  two of the exponent, which keeps the numbers small.
\<close>

lemma hundredths_scaled:
  assumes "exp2 f \<le> 1075"
  shows "hundredths f =
     (let num = 100 * mant f;
          den = 2 ^ (1075 - exp2 f);
          q = num div den;
          r = num mod den
      in if den < 2 * r \<or> (2 * r = den \<and> odd q) then q + 1 else q)"
proof -
  define e where "e = exp2 f"
  define d :: nat where "d = 2 ^ (1075 - e)"
  define c :: nat where "c = 2 ^ e"
  define a :: nat where "a = 100 * mant f"
  have cpos: "0 < c" by (simp add: c_def)
  have "(1075::nat) = (1075 - e) + e" using assms by (simp add: e_def)
  then have "(2::nat) ^ 1075 = 2 ^ ((1075 - e) + e)" by (rule arg_cong)
  then have D: "(2::nat) ^ 1075 = d * c" by (simp only: power_add d_def c_def)
  have N: "100 * mant f * 2 ^ exp2 f = a * c" by (simp only: a_def c_def e_def)
  have h: "hundredths f =
      (if d * c < 2 * ((a * c) mod (d * c))
          \<or> (2 * ((a * c) mod (d * c)) = d * c \<and> odd ((a * c) div (d * c)))
       then (a * c) div (d * c) + 1 else (a * c) div (d * c))"
    by (simp only: hundredths_def Let_def N D)
  have q: "(a * c) div (d * c) = a div d" using cpos by simp
  have r: "(a * c) mod (d * c) = (a mod d) * c" by simp
  have lt: "d * c < 2 * ((a mod d) * c) \<longleftrightarrow> d < 2 * (a mod d)"
    using cpos by (simp add: mult.assoc [symmetric])
  have eq: "2 * ((a mod d) * c) = d * c \<longleftrightarrow> 2 * (a mod d) = d"
    using cpos by (simp add: mult.assoc [symmetric])
  have "hundredths f =
      (if d < 2 * (a mod d) \<or> (2 * (a mod d) = d \<and> odd (a div d)) then a div d + 1 else a div d)"
    by (simp only: h q r lt eq)
  then show ?thesis
    by (simp only: Let_def a_def d_def e_def)
qed

lemma digit_is_digit: "d < 10 \<Longrightarrow> digit d \<in> set ''0123456789''"
  unfolding digit_def by (rule nth_mem) simp

lemma decimal_digits: "set (decimal n) \<subseteq> set ''0123456789''"
proof (induction n rule: decimal.induct)
  case (1 n)
  show ?case
  proof (cases "n < 10")
    case True
    then show ?thesis using digit_is_digit [of n] by (subst decimal.simps) simp
  next
    case False
    have "n mod 10 < 10" by simp
    from digit_is_digit [OF this] False 1 show ?thesis by (subst decimal.simps) simp
  qed
qed

lemma decimal_nonempty: "decimal n \<noteq> []"
  by (subst decimal.simps) simp

lemma finite_not_special: "IsFinite f \<Longrightarrow> \<not> IsNaN f \<and> \<not> IsInf f"
  by (simp add: IsFinite_def IsNaN_def IsInf_def)

lemma hundredths_9_1: "hundredths 0x4022333333333333 = 910"
proof -
  have e: "exp2 0x4022333333333333 = 1026"
    by (simp add: exp2_def biased_exp_def)
  then have "exp2 0x4022333333333333 \<le> 1075" by simp
  from hundredths_scaled [OF this] show ?thesis
    by (simp add: e mant_def biased_exp_def fraction_def Let_def)
qed

lemma hundredths_19_999: "hundredths 0x4033FFBE76C8B439 = 2000"
proof -
  have e: "exp2 0x4033FFBE76C8B439 = 1027"
    by (simp add: exp2_def biased_exp_def)
  then have "exp2 0x4033FFBE76C8B439 \<le> 1075" by simp
  from hundredths_scaled [OF this] show ?thesis
    by (simp add: e mant_def biased_exp_def fraction_def Let_def)
qed

text \<open>
  A tie goes to the even neighbour: 0.125 is a binary fraction, exactly half way between
  0.12 and 0.13.
\<close>

lemma hundredths_0_125: "hundredths 0x3FC0000000000000 = 12"
proof -
  have e: "exp2 0x3FC0000000000000 = 1020"
    by (simp add: exp2_def biased_exp_def)
  then have "exp2 0x3FC0000000000000 \<le> 1075" by simp
  from hundredths_scaled [OF this] show ?thesis
    by (simp add: e mant_def biased_exp_def fraction_def Let_def)
qed

lemma magnitude_scaled:
  assumes "exp2 f \<le> 1075"
  shows "magnitude f = of_nat (mant f) / 2 ^ (1075 - exp2 f)"
proof -
  define e where "e = exp2 f"
  have "(1075::nat) = (1075 - e) + e" using assms by (simp add: e_def)
  then have "(2::rat) ^ 1075 = 2 ^ ((1075 - e) + e)" by (rule arg_cong)
  then have D: "(2::rat) ^ 1075 = 2 ^ (1075 - e) * 2 ^ e" by (simp only: power_add)
  have "magnitude f = (of_nat (mant f) * 2 ^ e) / (2 ^ (1075 - e) * 2 ^ e)"
    by (simp only: magnitude_def D e_def of_nat_mult of_nat_power of_nat_numeral)
  also have "\<dots> = of_nat (mant f) / 2 ^ (1075 - e)" by simp
  finally show ?thesis by (simp only: e_def)
qed

lemma magnitude_0_125: "magnitude 0x3FC0000000000000 = 1 / 8"
proof -
  have e: "exp2 0x3FC0000000000000 = 1020"
    by (simp add: exp2_def biased_exp_def)
  then have "exp2 0x3FC0000000000000 \<le> 1075" by simp
  from magnitude_scaled [OF this] show ?thesis
    by (simp add: e mant_def biased_exp_def fraction_def)
qed

lemma price_tie_rounds_to_even: "fmt_f2 0x3FC0000000000000 = ''0.12''"
  by (simp add: fmt_f2_def IsNaN_def IsInf_def signbit_def hundredths_0_125
      biased_exp_def decimal.simps digit_def)

lemma decimal_9: "decimal 9 = ''9''"
  by (simp add: decimal.simps digit_def)

lemma decimal_20: "decimal 20 = ''20''"
  by (simp add: decimal.simps digit_def)

subsection \<open>The price line\<close>

text \<open>
  Claim C6, as the code has it. Every price is finite, not a number, or infinite.
  \<^item> For a finite price the body is the template with the price line \<open>Price: $\<close>, a
    minus sign when the sign bit is set, the decimal numeral of the integer part, a point,
    and exactly two decimal digits. The number shown is the exact value of the price in
    hundredths rounded to the nearest integer: it is at most half a hundredth away from
    the price, and when it is exactly half a hundredth away it is even.
  \<^item> For a price that is not a number the price line is \<open>Price: $NaN\<close>.
  \<^item> For an infinite price the price line is \<open>Price: $+Inf\<close> or \<open>Price: $-Inf\<close>.
\<close>

theorem price_two_decimals:
  "(IsFinite (Price data) \<longrightarrow>
      formatProductEmail s data =
        LF @ ''Product Details:'' @ LF
        @ ''---------------'' @ LF
        @ ''Name: '' @ ProductName data @ LF
        @ ''Price: $'' @ (if signbit (Price data) then ''-'' else [])
           @ decimal (hundredths (Price data) div 100) @ ''.''
           @ [digit (hundredths (Price data) div 10 mod 10),
              digit (hundredths (Price data) mod 10)] @ LF
        @ ''Description: '' @ Description data @ LF \<and>
      decimal (hundredths (Price data) div 100) \<noteq> [] \<and>
      set (decimal (hundredths (Price data) div 100)) \<subseteq> set ''0123456789'' \<and>
      digit (hundredths (Price data) div 10 mod 10) \<in> set ''0123456789'' \<and>
      digit (hundredths (Price data) mod 10) \<in> set ''0123456789'' \<and>
      \<bar>of_nat (hundredths (Price data)) / 100 - magnitude (Price data)\<bar> \<le> 1 / 200 \<and>
      (\<bar>of_nat (hundredths (Price data)) / 100 - magnitude (Price data)\<bar> = 1 / 200
         \<longrightarrow> even (hundredths (Price data)))) \<and>
   (IsNaN (Price data) \<longrightarrow>
      formatProductEmail s data =
        LF @ ''Product Details:'' @ LF
        @ ''---------------'' @ LF
        @ ''Name: '' @ ProductName data @ LF
        @ ''Price: $NaN'' @ LF
        @ ''Description: '' @ Description data @ LF) \<and>
   (IsInf (Price data) \<longrightarrow>
      formatProductEmail s data =
        LF @ ''Product Details:'' @ LF
        @ ''---------------'' @ LF
        @ ''Name: '' @ ProductName data @ LF
        @ ''Price: $'' @ (if signbit (Price data) then ''-Inf'' else ''+Inf'') @ LF
        @ ''Description: '' @ Description data @ LF) \<and>
   (IsFinite (Price data) \<or> IsNaN (Price data) \<or> IsInf (Price data))"
proof (intro conjI impI)
  assume fin: "IsFinite (Price data)"
  have "fmt_f2 (Price data) =
      (if signbit (Price data) then ''-'' else [])
      @ decimal (hundredths (Price data) div 100) @ ''.''
      @ [digit (hundredths (Price data) div 10 mod 10), digit (hundredths (Price data) mod 10)]"
    using finite_not_special [OF fin] by (simp add: fmt_f2_def)
  then show "formatProductEmail s data =
        LF @ ''Product Details:'' @ LF
        @ ''---------------'' @ LF
        @ ''Name: '' @ ProductName data @ LF
        @ ''Price: $'' @ (if signbit (Price data) then ''-'' else [])
           @ decimal (hundredths (Price data) div 100) @ ''.''
           @ [digit (hundredths (Price data) div 10 mod 10),
              digit (hundredths (Price data) mod 10)] @ LF
        @ ''Description: '' @ Description data @ LF"
    by (simp add: formatProductEmail_def fmt_s_def)
next
  show "decimal (hundredths (Price data) div 100) \<noteq> []"
    by (rule decimal_nonempty)
next
  show "set (decimal (hundredths (Price data) div 100)) \<subseteq> set ''0123456789''"
    by (rule decimal_digits)
next
  show "digit (hundredths (Price data) div 10 mod 10) \<in> set ''0123456789''"
    by (rule digit_is_digit) simp
next
  show "digit (hundredths (Price data) mod 10) \<in> set ''0123456789''"
    by (rule digit_is_digit) simp
next
  show "\<bar>of_nat (hundredths (Price data)) / 100 - magnitude (Price data)\<bar> \<le> 1 / 200"
    by (rule hundredths_bound)
next
  assume "\<bar>of_nat (hundredths (Price data)) / 100 - magnitude (Price data)\<bar> = 1 / 200"
  then show "even (hundredths (Price data))"
    by (rule hundredths_tie)
next
  assume "IsNaN (Price data)"
  then show "formatProductEmail s data =
        LF @ ''Product Details:'' @ LF
        @ ''---------------'' @ LF
        @ ''Name: '' @ ProductName data @ LF
        @ ''Price: $NaN'' @ LF
        @ ''Description: '' @ Description data @ LF"
    by (simp add: formatProductEmail_def fmt_s_def fmt_f2_def)
next
  assume inf: "IsInf (Price data)"
  then have "\<not> IsNaN (Price data)"
    by (simp add: IsInf_def IsNaN_def)
  with inf show "formatProductEmail s data =
        LF @ ''Product Details:'' @ LF
        @ ''---------------'' @ LF
        @ ''Name: '' @ ProductName data @ LF
        @ ''Price: $'' @ (if signbit (Price data) then ''-Inf'' else ''+Inf'') @ LF
        @ ''Description: '' @ Description data @ LF"
    by (simp add: formatProductEmail_def fmt_s_def fmt_f2_def)
next
  show "IsFinite (Price data) \<or> IsNaN (Price data) \<or> IsInf (Price data)"
    by (auto simp add: IsFinite_def IsNaN_def IsInf_def)
qed

text \<open>
  The examples of claim C6 and one input for each case: 9.1 (the \<open>float64\<close>
  \<open>0x4022333333333333\<close>) is rendered \<open>$9.10\<close>, 19.999 (\<open>0x4033FFBE76C8B439\<close>) is
  rendered \<open>$20.00\<close>; 0.125, half way between 0.12 and 0.13, is rendered \<open>$0.12\<close>;
  a NaN and the two infinities are rendered by name.
\<close>

theorem price_two_decimals_witness:
  "IsFinite (Price \<lparr>ProductName = ''Widget'', Price = 0x4022333333333333,
      Description = ''A widget'', RecipientEmail = ''a@b.com''\<rparr>) \<and>
   formatProductEmail
     \<lparr>mg = (\<lambda>ctx m. (''queued'', ''msg-1'', None)),
      config = \<lparr>Domain = ''acme.com'', ApiKey = ''key'', FromName = ''Acme'',
                FromEmail = ''sales''\<rparr>\<rparr>
     \<lparr>ProductName = ''Widget'', Price = 0x4022333333333333,
      Description = ''A widget'', RecipientEmail = ''a@b.com''\<rparr> =
     LF @ ''Product Details:'' @ LF
     @ ''---------------'' @ LF
     @ ''Name: Widget'' @ LF
     @ ''Price: $9.10'' @ LF
     @ ''Description: A widget'' @ LF \<and>
   IsFinite (Price \<lparr>ProductName = ''Widget'', Price = 0x4033FFBE76C8B439,
      Description = ''A widget'', RecipientEmail = ''a@b.com''\<rparr>) \<and>
   formatProductEmail
     \<lparr>mg = (\<lambda>ctx m. (''queued'', ''msg-1'', None)),
      config = \<lparr>Domain = ''acme.com'', ApiKey = ''key'', FromName = ''Acme'',
                FromEmail = ''sales''\<rparr>\<rparr>
     \<lparr>ProductName = ''Widget'', Price = 0x4033FFBE76C8B439,
      Description = ''A widget'', RecipientEmail = ''a@b.com''\<rparr> =
     LF @ ''Product Details:'' @ LF
     @ ''---------------'' @ LF
     @ ''Name: Widget'' @ LF
     @ ''Price: $20.00'' @ LF
     @ ''Description: A widget'' @ LF \<and>
   IsFinite (Price \<lparr>ProductName = ''Widget'', Price = 0x3FC0000000000000,
      Description = ''A widget'', RecipientEmail = ''a@b.com''\<rparr>) \<and>
   \<bar>of_nat (hundredths (Price \<lparr>ProductName = ''Widget'', Price = 0x3FC0000000000000,
      Description = ''A widget'', RecipientEmail = ''a@b.com''\<rparr>)) / 100
      - magnitude (Price \<lparr>ProductName = ''Widget'', Price = 0x3FC0000000000000,
      Description = ''A widget'', RecipientEmail = ''a@b.com''\<rparr>)\<bar> = 1 / 200 \<and>
   even (hundredths (Price \<lparr>ProductName = ''Widget'', Price = 0x3FC0000000000000,
      Description = ''A widget'', RecipientEmail = ''a@b.com''\<rparr>)) \<and>
   formatProductEmail
     \<lparr>mg = (\<lambda>ctx m. (''queued'', ''msg-1'', None)),
      config = \<lparr>Domain = ''acme.com'', ApiKey = ''key'', FromName = ''Acme'',
                FromEmail = ''sales''\<rparr>\<rparr>
     \<lparr>ProductName = ''Widget'', Price = 0x3FC0000000000000,
      Description = ''A widget'', RecipientEmail = ''a@b.com''\<rparr> =
     LF @ ''Product Details:'' @ LF
     @ ''---------------'' @ LF
     @ ''Name: Widget'' @ LF
     @ ''Price: $0.12'' @ LF
     @ ''Description: A widget'' @ LF \<and>
   IsNaN (Price \<lparr>ProductName = ''Widget'', Price = 0x7FF8000000000000,
      Description = ''A widget'', RecipientEmail = ''a@b.com''\<rparr>) \<and>
   formatProductEmail
     \<lparr>mg = (\<lambda>ctx m. (''queued'', ''msg-1'', None)),
      config = \<lparr>Domain = ''acme.com'', ApiKey = ''key'', FromName = ''Acme'',
                FromEmail = ''sales''\<rparr>\<rparr>
     \<lparr>ProductName = ''Widget'', Price = 0x7FF8000000000000,
      Description = ''A widget'', RecipientEmail = ''a@b.com''\<rparr> =
     LF @ ''Product Details:'' @ LF
     @ ''---------------'' @ LF
     @ ''Name: Widget'' @ LF
     @ ''Price: $NaN'' @ LF
     @ ''Description: A widget'' @ LF \<and>
   IsInf (Price \<lparr>ProductName = ''Widget'', Price = 0x7FF0000000000000,
      Description = ''A widget'', RecipientEmail = ''a@b.com''\<rparr>) \<and>
   formatProductEmail
     \<lparr>mg = (\<lambda>ctx m. (''queued'', ''msg-1'', None)),
      config = \<lparr>Domain = ''acme.com'', ApiKey = ''key'', FromName = ''Acme'',
                FromEmail = ''sales''\<rparr>\<rparr>
     \<lparr>ProductName = ''Widget'', Price = 0x7FF0000000000000,
      Description = ''A widget'', RecipientEmail = ''a@b.com''\<rparr> =
     LF @ ''Product Details:'' @ LF
     @ ''---------------'' @ LF
     @ ''Name: Widget'' @ LF
     @ ''Price: $+Inf'' @ LF
     @ ''Description: A widget'' @ LF \<and>
   IsInf (Price \<lparr>ProductName = ''Widget'', Price = 0xFFF0000000000000,
      Description = ''A widget'', RecipientEmail = ''a@b.com''\<rparr>) \<and>
   formatProductEmail
     \<lparr>mg = (\<lambda>ctx m. (''queued'', ''msg-1'', None)),
      config = \<lparr>Domain = ''acme.com'', ApiKey = ''key'', FromName = ''Acme'',
                FromEmail = ''sales''\<rparr>\<rparr>
     \<lparr>ProductName = ''Widget'', Price = 0xFFF0000000000000,
      Description = ''A widget'', RecipientEmail = ''a@b.com''\<rparr> =
     LF @ ''Product Details:'' @ LF
     @ ''---------------'' @ LF
     @ ''Name: Widget'' @ LF
     @ ''Price: $-Inf'' @ LF
     @ ''Description: A widget'' @ LF"
proof -
  let ?s = "\<lparr>mg = (\<lambda>ctx m. (''queued'', ''msg-1'', None)),
      config = \<lparr>Domain = ''acme.com'', ApiKey = ''key'', FromName = ''Acme'',
                FromEmail = ''sales''\<rparr>\<rparr>"
  let ?a = "\<lparr>ProductName = ''Widget'', Price = 0x4022333333333333,
      Description = ''A widget'', RecipientEmail = ''a@b.com''\<rparr>"
  let ?b = "\<lparr>ProductName = ''Widget'', Price = 0x4033FFBE76C8B439,
      Description = ''A widget'', RecipientEmail = ''a@b.com''\<rparr>"
  let ?t = "\<lparr>ProductName = ''Widget'', Price = 0x3FC0000000000000,
      Description = ''A widget'', RecipientEmail = ''a@b.com''\<rparr>"
  let ?n = "\<lparr>ProductName = ''Widget'', Price = 0x7FF8000000000000,
      Description = ''A widget'', RecipientEmail = ''a@b.com''\<rparr>"
  let ?p = "\<lparr>ProductName = ''Widget'', Price = 0x7FF0000000000000,
      Description = ''A widget'', RecipientEmail = ''a@b.com''\<rparr>"
  let ?m = "\<lparr>ProductName = ''Widget'', Price = 0xFFF0000000000000,
      Description = ''A widget'', RecipientEmail = ''a@b.com''\<rparr>"
  have fa: "IsFinite (Price ?a)" and fb: "IsFinite (Price ?b)" and ft: "IsFinite (Price ?t)"
    by (simp_all add: IsFinite_def biased_exp_def)
  have sa: "\<not> signbit (Price ?a)" and sb: "\<not> signbit (Price ?b)"
    and st: "\<not> signbit (Price ?t)" and sp: "\<not> signbit (Price ?p)"
    and sm: "signbit (Price ?m)"
    by (simp_all add: signbit_def)
  have nn: "IsNaN (Price ?n)"
    by (simp add: IsNaN_def biased_exp_def fraction_def)
  have ip: "IsInf (Price ?p)" and im: "IsInf (Price ?m)"
    by (simp_all add: IsInf_def biased_exp_def fraction_def)
  have tie: "\<bar>of_nat (hundredths (Price ?t)) / 100 - magnitude (Price ?t)\<bar> = 1 / 200"
    by (simp add: hundredths_0_125 magnitude_0_125)
  have a: "formatProductEmail
     ?s
     ?a =
     LF @ ''Product Details:'' @ LF
     @ ''---------------'' @ LF
     @ ''Name: Widget'' @ LF
     @ ''Price: $9.10'' @ LF
     @ ''Description: A widget'' @ LF"
    using price_two_decimals [where data = ?a and s = ?s] fa sa
    by (simp add: hundredths_9_1 decimal_9 digit_def)
  have b: "formatProductEmail
     ?s
     ?b =
     LF @ ''Product Details:'' @ LF
     @ ''---------------'' @ LF
     @ ''Name: Widget'' @ LF
     @ ''Price: $20.00'' @ LF
     @ ''Description: A widget'' @ LF"
    using price_two_decimals [where data = ?b and s = ?s] fb sb
    by (simp add: hundredths_19_999 decimal_20 digit_def)
  have t: "formatProductEmail
     ?s
     ?t =
     LF @ ''Product Details:'' @ LF
     @ ''---------------'' @ LF
     @ ''Name: Widget'' @ LF
     @ ''Price: $0.12'' @ LF
     @ ''Description: A widget'' @ LF"
    and te: "even (hundredths (Price ?t))"
    using price_two_decimals [where data = ?t and s = ?s] ft st tie
    by (simp_all add: hundredths_0_125 decimal.simps digit_def)
  have n: "formatProductEmail
     ?s
     ?n =
     LF @ ''Product Details:'' @ LF
     @ ''---------------'' @ LF
     @ ''Name: Widget'' @ LF
     @ ''Price: $NaN'' @ LF
     @ ''Description: A widget'' @ LF"
    using price_two_decimals [where data = ?n and s = ?s] nn by simp
  have p: "formatProductEmail
     ?s
     ?p =
     LF @ ''Product Details:'' @ LF
     @ ''---------------'' @ LF
     @ ''Name: Widget'' @ LF
     @ ''Price: $+Inf'' @ LF
     @ ''Description: A widget'' @ LF"
    using price_two_decimals [where data = ?p and s = ?s] ip sp by simp
  have m: "formatProductEmail
     ?s
     ?m =
     LF @ ''Product Details:'' @ LF
     @ ''---------------'' @ LF
     @ ''Name: Widget'' @ LF
     @ ''Price: $-Inf'' @ LF
     @ ''Description: A widget'' @ LF"
    using price_two_decimals [where data = ?m and s = ?s] im sm by simp
  from fa a fb b ft tie te t nn n ip p im m show ?thesis by blast
qed

text \<open>
  Claim C6 as stated covers every \<open>float64\<close>. A price that is not a number is rendered
  \<open>$NaN\<close> and an infinite price \<open>$+Inf\<close> or \<open>$-Inf\<close>, with no decimal digits.
\<close>

theorem price_nan_counterexample:
  "formatProductEmail
     \<lparr>mg = (\<lambda>ctx m. (''queued'', ''msg-1'', None)),
      config = \<lparr>Domain = ''acme.com'', ApiKey = ''key'', FromName = ''Acme'',
                FromEmail = ''sales''\<rparr>\<rparr>
     \<lparr>ProductName = ''Widget'', Price = 0x7FF8000000000000,
      Description = ''A widget'', RecipientEmail = ''a@b.com''\<rparr> =
     LF @ ''Product Details:'' @ LF
     @ ''---------------'' @ LF
     @ ''Name: Widget'' @ LF
     @ ''Price: $NaN'' @ LF
     @ ''Description: A widget'' @ LF \<and>
   formatProductEmail
     \<lparr>mg = (\<lambda>ctx m. (''queued'', ''msg-1'', None)),
      config = \<lparr>Domain = ''acme.com'', ApiKey = ''key'', FromName = ''Acme'',
                FromEmail = ''sales''\<rparr>\<rparr>
     \<lparr>ProductName = ''Widget'', Price = 0x7FF0000000000000,
      Description = ''A widget'', RecipientEmail = ''a@b.com''\<rparr> =
     LF @ ''Product Details:'' @ LF
     @ ''---------------'' @ LF
     @ ''Name: Widget'' @ LF
     @ ''Price: $+Inf'' @ LF
     @ ''Description: A widget'' @ LF \<and>
   formatProductEmail
     \<lparr>mg = (\<lambda>ctx m. (''queued'', ''msg-1'', None)),
      config = \<lparr>Domain = ''acme.com'', ApiKey = ''key'', FromName = ''Acme'',
                FromEmail = ''sales''\<rparr>\<rparr>
     \<lparr>ProductName = ''Widget'', Price = 0xFFF0000000000000,
      Description = ''A widget'', RecipientEmail = ''a@b.com''\<rparr> =
     LF @ ''Product Details:'' @ LF
     @ ''---------------'' @ LF
     @ ''Name: Widget'' @ LF
     @ ''Price: $-Inf'' @ LF
     @ ''Description: A widget'' @ LF"
  by (simp add: formatProductEmail_def fmt_s_def fmt_f2_def IsNaN_def IsInf_def signbit_def
      biased_exp_def fraction_def)

subsection \<open>The template\<close>

text \<open>
  Claim C7, as the code has it. The body is a line feed followed by the five lines of the
  template, each ended by a line feed, and nothing else: the raw string literal of the
  source starts with a line break.
\<close>

theorem body_is_template:
  "formatProductEmail s data = LF @ unlines (template_lines data)"
  by (simp add: formatProductEmail_def unlines_def template_lines_def fmt_s_def)

text \<open>
  Claim C7 as stated has no text before the line \<open>Product Details:\<close>. The body of the
  example request is not the five lines, and its first sixteen characters are not
  \<open>Product Details:\<close>.
\<close>

theorem body_leading_newline_counterexample:
  "formatProductEmail
     \<lparr>mg = (\<lambda>ctx m. (''queued'', ''msg-1'', None)),
      config = \<lparr>Domain = ''acme.com'', ApiKey = ''key'', FromName = ''Acme'',
                FromEmail = ''sales''\<rparr>\<rparr>
     \<lparr>ProductName = ''Widget'', Price = 0x4023FAE147AE147B,
      Description = ''A widget'', RecipientEmail = ''a@b.com''\<rparr>
   \<noteq> unlines (template_lines
     \<lparr>ProductName = ''Widget'', Price = 0x4023FAE147AE147B,
      Description = ''A widget'', RecipientEmail = ''a@b.com''\<rparr>) \<and>
   take 16 (formatProductEmail
     \<lparr>mg = (\<lambda>ctx m. (''queued'', ''msg-1'', None)),
      config = \<lparr>Domain = ''acme.com'', ApiKey = ''key'', FromName = ''Acme'',
                FromEmail = ''sales''\<rparr>\<rparr>
     \<lparr>ProductName = ''Widget'', Price = 0x4023FAE147AE147B,
      Description = ''A widget'', RecipientEmail = ''a@b.com''\<rparr>)
   \<noteq> ''Product Details:''"
  by (simp add: formatProductEmail_def unlines_def template_lines_def fmt_s_def)

text \<open>
  Claim C10. Two requests that agree on product name, price and description get the same
  body; the messages submitted for them have the same text, the subject
  \<open>Product Information\<close> and the same sender, and each is addressed to the recipient of
  its own request only.
\<close>

theorem body_independent_of_recipient:
  assumes "ProductName d1 = ProductName d2" and "Price d1 = Price d2"
    and "Description d1 = Description d2"
  shows "formatProductEmail s d1 = formatProductEmail s d2 \<and>
         Text (last (snd (SendProductEmail s ctx d1 outbox))) =
           Text (last (snd (SendProductEmail s ctx d2 outbox))) \<and>
         Subject (last (snd (SendProductEmail s ctx d1 outbox))) = ''Product Information'' \<and>
         Subject (last (snd (SendProductEmail s ctx d2 outbox))) = ''Product Information'' \<and>
         From (last (snd (SendProductEmail s ctx d1 outbox))) =
           From (last (snd (SendProductEmail s ctx d2 outbox))) \<and>
         To (last (snd (SendProductEmail s ctx d1 outbox))) = [RecipientEmail d1] \<and>
         To (last (snd (SendProductEmail s ctx d2 outbox))) = [RecipientEmail d2]"
  using assms by (simp add: SendProductEmail_eq formatProductEmail_def)

theorem body_independent_of_recipient_witness:
  "ProductName \<lparr>ProductName = ''Widget'', Price = 0x4023FAE147AE147B,
                 Description = ''A widget'', RecipientEmail = ''a@b.com''\<rparr> =
     ProductName \<lparr>ProductName = ''Widget'', Price = 0x4023FAE147AE147B,
                   Description = ''A widget'', RecipientEmail = ''c@d.org''\<rparr> \<and>
   formatProductEmail
     \<lparr>mg = (\<lambda>ctx m. (''queued'', ''msg-1'', None)),
      config = \<lparr>Domain = ''acme.com'', ApiKey = ''key'', FromName = ''Acme'',
                FromEmail = ''sales''\<rparr>\<rparr>
     \<lparr>ProductName = ''Widget'', Price = 0x4023FAE147AE147B,
      Description = ''A widget'', RecipientEmail = ''a@b.com''\<rparr> =
   formatProductEmail
     \<lparr>mg = (\<lambda>ctx m. (''queued'', ''msg-1'', None)),
      config = \<lparr>Domain = ''acme.com'', ApiKey = ''key'', FromName = ''Acme'',
                FromEmail = ''sales''\<rparr>\<rparr>
     \<lparr>ProductName = ''Widget'', Price = 0x4023FAE147AE147B,
      Description = ''A widget'', RecipientEmail = ''c@d.org''\<rparr> \<and>
   To (last (snd (SendProductEmail
     \<lparr>mg = (\<lambda>ctx m. (''queued'', ''msg-1'', None)),
      config = \<lparr>Domain = ''acme.com'', ApiKey = ''key'', FromName = ''Acme'',
                FromEmail = ''sales''\<rparr>\<rparr> Background
     \<lparr>ProductName = ''Widget'', Price = 0x4023FAE147AE147B,
      Description = ''A widget'', RecipientEmail = ''a@b.com''\<rparr> []))) = [''a@b.com''] \<and>
   To (last (snd (SendProductEmail
     \<lparr>mg = (\<lambda>ctx m. (''queued'', ''msg-1'', None)),
      config = \<lparr>Domain = ''acme.com'', ApiKey = ''key'', FromName = ''Acme'',
                FromEmail = ''sales''\<rparr>\<rparr> Background
     \<lparr>ProductName = ''Widget'', Price = 0x4023FAE147AE147B,
      Description = ''A widget'', RecipientEmail = ''c@d.org''\<rparr> []))) = [''c@d.org'']"
proof -
  let ?s = "\<lparr>mg = (\<lambda>ctx m. (''queued'', ''msg-1'', None)),
      config = \<lparr>Domain = ''acme.com'', ApiKey = ''key'', FromName = ''Acme'',
                FromEmail = ''sales''\<rparr>\<rparr>"
  let ?a = "\<lparr>ProductName = ''Widget'', Price = 0x4023FAE147AE147B,
      Description = ''A widget'', RecipientEmail = ''a@b.com''\<rparr>"
  let ?b = "\<lparr>ProductName = ''Widget'', Price = 0x4023FAE147AE147B,
      Description = ''A widget'', RecipientEmail = ''c@d.org''\<rparr>"
  have 1: "ProductName ?a = ProductName ?b" and 2: "Price ?a = Price ?b"
    and 3: "Description ?a = Description ?b" by simp_all
  from body_independent_of_recipient [OF 1 2 3, of ?s Background "[]"] 1
  show ?thesis by simp
qed


section \<open>The scenario of the specification, end to end\<close>

lemma fmt_f2_9_99: "fmt_f2 0x4023FAE147AE147B = ''9.99''"
proof -
  have e: "exp2 0x4023FAE147AE147B = 1026"
    by (simp add: exp2_def biased_exp_def)
  then have "exp2 0x4023FAE147AE147B \<le> 1075" by simp
  from hundredths_scaled [OF this] have "hundredths 0x4023FAE147AE147B = 999"
    by (simp add: e mant_def biased_exp_def fraction_def Let_def)
  then show ?thesis
    by (simp add: fmt_f2_def IsNaN_def IsInf_def signbit_def biased_exp_def decimal.simps
        digit_def)
qed

text \<open>
  \<open>POST /send-product\<close> with the body of the example, read as price 9.99 (the
  \<open>float64\<close> \<open>0x4023FAE147AE147B\<close>), and a provider that answers \<open>queued\<close> with id
  \<open>msg-1\<close>: the response and the one message submitted to the provider.
\<close>

lemma end_to_end_scenario:
  \<open>ServeHTTP
     (\<lambda>b. if b = ''{"product_name":"Widget","price":9.99,"description":"A widget","email":"a@b.com"}''
          then Inr \<lparr>ProductName = ''Widget'', Price = 0x4023FAE147AE147B,
                     Description = ''A widget'', RecipientEmail = ''a@b.com''\<rparr>
          else Inl (Error ''invalid character''))
     \<lparr>emailService =
        \<lparr>mg = (\<lambda>ctx m. (''queued'', ''msg-1'', None)),
         config = \<lparr>Domain = ''acme.com'', ApiKey = ''key'', FromName = ''Acme'',
                   FromEmail = ''sales''\<rparr>\<rparr>\<rparr>
     \<lparr>Method = ''POST'', URLPath = ''/send-product'',
       Body = ''{"product_name":"Widget","price":9.99,"description":"A widget","email":"a@b.com"}'',
       ReqContext = Background\<rparr> [] = (c, outbox) \<Longrightarrow>
   response (c, outbox) =
     \<lparr>code = 200,
      headers = [''Access-Control-Allow-Origin'' \<mapsto> ''http://localhost:5173'',
                 ''Access-Control-Allow-Methods'' \<mapsto> ''POST, OPTIONS'',
                 ''Access-Control-Allow-Headers'' \<mapsto> ''Content-Type'',
                 ''Access-Control-Max-Age'' \<mapsto> ''86400'',
                 ''Content-Type'' \<mapsto> ''application/json; charset=utf-8''],
      content = [JSONBody [''message'' \<mapsto> ''Email sent successfully'',
                           ''id'' \<mapsto> ''msg-1'', ''response'' \<mapsto> ''queued'']]\<rparr> \<and>
   outbox = [\<lparr>From = ''Acme <sales@acme.com>'', Subject = ''Product Information'',
              Text = LF @ ''Product Details:'' @ LF @ ''---------------'' @ LF
                     @ ''Name: Widget'' @ LF @ ''Price: $9.99'' @ LF
                     @ ''Description: A widget'' @ LF,
              To = [''a@b.com'']\<rparr>]\<close>
  by (auto simp add: ServeHTTP_def corsMiddleware_def SendProductHandler_def BindJSON_def
      SendProductEmail_eq formatProductEmail_def fmt_s_def fmt_f2_9_99 JSON_def Status_def WriteHeader_def
      writeContentType_def Write_def WriteHeaderNow_def bodyAllowedForStatus_def
      Header_Set_def newContext_def response_def Let_def)

end
